theory Spec2Isabelle
  imports Main "HOL-Library.Word"
begin

section \<open>The console page's session orchestration, as a state machine\<close>

text \<open>
  The React component \<^verbatim>\<open>ConsolePage\<close> keeps its state in \<^verbatim>\<open>useState\<close> cells and
  \<^verbatim>\<open>useRef\<close> cells and drives three adapters: the realtime client, the wav recorder and
  the wav stream player. The model is a record of the cells, a small abstract state per
  adapter, and a trace of every effect the handlers perform, in program order. A handler
  is a function from the world to the world; a handler that can end in a rejected promise
  or a thrown error also returns its outcome.

  Each handler is modelled as running to completion, one after the other (the page is
  single threaded). A callback made with \<^verbatim>\<open>useCallback\<close> reads the state cells as the render
  that created it saw them. A callback that is looked at on its own is taken to come from a
  render of the current state, so it reads the current value of a cell. The two
  push-to-talk callbacks are called in a row by one press of the button, with or without a
  render in between, so they take the values they captured as a parameter.
\<close>

subsection \<open>Data\<close>

type_synonym pcm = "16 word list"
  \<comment> \<open>an \<^verbatim>\<open>Int16Array\<close> of samples\<close>

type_synonym addr = nat
  \<comment> \<open>the identity of a conversation item object; the same object is reachable from the
      client's item list, from an event and from the \<^verbatim>\<open>items\<close> cell\<close>

datatype source = Client | Server

text \<open>
  \<^verbatim>\<open>event: { [key: string]: any }\<close>: only the key \<^verbatim>\<open>type\<close> is ever read. \<open>ptype\<close> is its
  value, \<open>None\<close> when the key is absent (\<^verbatim>\<open>undefined\<close>); \<open>pbody\<close> stands for the other keys.
\<close>

record payload =
  ptype :: "string option"
  pbody :: string

record realtime_event =
  time :: string
  source :: source
  count :: "nat option"
  event :: payload

record email_marketing_content =
  subject :: string
  body :: string

text \<open>
  The value \<^verbatim>\<open>WavRecorder.decode(audio, sampleRate, fromSampleRate)\<close> resolves to. The
  decoder is outside the component, so its result is kept symbolic: the samples and the
  two rates it was called with.
\<close>

datatype wav_file = WavFile pcm nat nat

record formatted =
  transcript :: "string option"
  ftext :: "string option"
  audio :: "pcm option"
  ffile :: "wav_file option"

record conversation_item =
  item_id :: string
  role :: "string option"
  status :: string
  formatted :: formatted

record delta =
  dtranscript :: "string option"
  dtext :: "string option"
  daudio :: "pcm option"

text \<open>What \<^verbatim>\<open>wavStreamPlayer.interrupt()\<close> resolves to when it is not \<^verbatim>\<open>undefined\<close>;
  \<open>trackId\<close> is \<open>None\<close> for \<^verbatim>\<open>null\<close>.\<close>

record track_sample_offset =
  trackId :: "string option"
  offset :: int

datatype recorder_status = Ended | Paused | Recording

datatype turn_detection = ServerVad

datatype error = TypeError | AdapterError string

datatype outcome = Resolved | Rejected error

subsection \<open>Effects\<close>

text \<open>
  One constructor per state setter, ref write and adapter call of the component. The
  setters carry the value that is stored, \<open>ClientConnect\<close> carries how the promise of
  \<^verbatim>\<open>client.connect()\<close> settles (\<open>None\<close>: it resolves).
\<close>

datatype effect =
    SetStartTime string
  | SetItems "addr list"
  | SetRealtimeEvents "realtime_event list"
  | SetIsConnected bool
  | SetIsRecording bool
  | SetMemoryKv "string \<rightharpoonup> string"
  | SetEmailContent email_marketing_content
  | SetIsChatOpen bool
  | SetIsVADMode bool
  | SetTextMessage string
  | SetRecordingDuration nat
  | SetIsListening bool
  | SetInterval
  | ClearInterval
  | SetItemFile addr wav_file
  | ClientConnect "error option"
  | ClientDisconnect
  | ClientSendUserMessageContent string
  | ClientUpdateSession "turn_detection option"
  | ClientCreateResponse
  | ClientCancelResponse string int
  | RecorderBegin
  | RecorderRecord
  | RecorderPause
  | RecorderEnd
  | PlayerConnect
  | PlayerInterrupt
  | PlayerAdd16BitPCM pcm string
  | WavDecode pcm nat nat
  | ConsoleError string

subsection \<open>The world\<close>

text \<open>
  The first group of fields are the \<^verbatim>\<open>useState\<close> cells, the second the refs. The third
  group is the state of the adapters as far as the component reads it.
\<close>

record world =
  items :: "addr list"
  realtimeEvents :: "realtime_event list"
  isConnected :: bool
  canPushToTalk :: bool
  isRecording :: bool
  memoryKv :: "string \<rightharpoonup> string"
  emailContent :: email_marketing_content
  isChatOpen :: bool
  isVADMode :: bool
  textMessage :: string
  recordingDuration :: nat
  vadEnabled :: bool
  isListening :: bool
  startTime :: string
  recordingTimer :: bool
  intervalActive :: bool
  recorderStatus :: recorder_status
  clientConnected :: bool
  clientItems :: "addr list"
  itemHeap :: "addr \<Rightarrow> conversation_item"
  trace :: "effect list"

text \<open>What a handler cannot compute from the world: the clock, how \<^verbatim>\<open>client.connect()\<close>
  settles, and what \<^verbatim>\<open>wavStreamPlayer.interrupt()\<close> resolves to.\<close>

record env =
  now :: string
  connectOutcome :: "error option"
  interruptResult :: "track_sample_offset option"

text \<open>
  Modelled from the spec: the adapters (\<^verbatim>\<open>lib/wavtools\<close> and the realtime client package)
  are not among the sources. Of the recorder only its status is kept: \<^verbatim>\<open>begin()\<close> leaves it
  paused, \<^verbatim>\<open>record()\<close> recording, \<^verbatim>\<open>pause()\<close> paused and \<^verbatim>\<open>end()\<close> ended. Of the client only
  whether it is connected: \<^verbatim>\<open>connect()\<close> that resolves connects it, \<^verbatim>\<open>disconnect()\<close>
  disconnects it. Every adapter promise other than that of \<^verbatim>\<open>client.connect()\<close> is taken to
  resolve. \<open>recordingTimer\<close> says whether the ref holds an interval handle,
  \<open>intervalActive\<close> whether that interval is still scheduled.
\<close>

fun apply_effect :: "effect \<Rightarrow> world \<Rightarrow> world" where
  "apply_effect (SetStartTime t) w = w\<lparr>startTime := t\<rparr>"
| "apply_effect (SetItems xs) w = w\<lparr>items := xs\<rparr>"
| "apply_effect (SetRealtimeEvents es) w = w\<lparr>realtimeEvents := es\<rparr>"
| "apply_effect (SetIsConnected b) w = w\<lparr>isConnected := b\<rparr>"
| "apply_effect (SetIsRecording b) w = w\<lparr>isRecording := b\<rparr>"
| "apply_effect (SetMemoryKv m) w = w\<lparr>memoryKv := m\<rparr>"
| "apply_effect (SetEmailContent c) w = w\<lparr>emailContent := c\<rparr>"
| "apply_effect (SetIsChatOpen b) w = w\<lparr>isChatOpen := b\<rparr>"
| "apply_effect (SetIsVADMode b) w = w\<lparr>isVADMode := b\<rparr>"
| "apply_effect (SetTextMessage s) w = w\<lparr>textMessage := s\<rparr>"
| "apply_effect (SetRecordingDuration n) w = w\<lparr>recordingDuration := n\<rparr>"
| "apply_effect (SetIsListening b) w = w\<lparr>isListening := b\<rparr>"
| "apply_effect SetInterval w = w\<lparr>recordingTimer := True, intervalActive := True\<rparr>"
| "apply_effect ClearInterval w = w\<lparr>intervalActive := False\<rparr>"
| "apply_effect (SetItemFile a f) w =
     w\<lparr>itemHeap := (itemHeap w)(a := (itemHeap w a)\<lparr>formatted := (formatted (itemHeap w a))\<lparr>ffile := Some f\<rparr>\<rparr>)\<rparr>"
| "apply_effect (ClientConnect r) w = (if r = None then w\<lparr>clientConnected := True\<rparr> else w)"
| "apply_effect ClientDisconnect w = w\<lparr>clientConnected := False\<rparr>"
| "apply_effect RecorderBegin w = w\<lparr>recorderStatus := Paused\<rparr>"
| "apply_effect RecorderRecord w = w\<lparr>recorderStatus := Recording\<rparr>"
| "apply_effect RecorderPause w = w\<lparr>recorderStatus := Paused\<rparr>"
| "apply_effect RecorderEnd w = w\<lparr>recorderStatus := Ended\<rparr>"
| "apply_effect _ w = w"

definition perform :: "effect \<Rightarrow> world \<Rightarrow> world" where
  "perform e w = (apply_effect e w)\<lparr>trace := trace w @ [e]\<rparr>"

definition run :: "effect list \<Rightarrow> world \<Rightarrow> world" where
  "run es w = fold perform es w"

text \<open>The effects a handler added: the part of the trace after the old one.\<close>

definition new_effects :: "world \<Rightarrow> world \<Rightarrow> effect list" where
  "new_effects w w' = drop (length (trace w)) (trace w')"

subsection \<open>The event log\<close>

text \<open>
  \<^verbatim>\<open>
  setRealtimeEvents((realtimeEvents) => {
    const lastEvent = realtimeEvents[realtimeEvents.length - 1];
    if (lastEvent?.event.type === realtimeEvent.event.type) {
      lastEvent.count = (lastEvent.count || 0) + 1;
      return realtimeEvents.slice(0, -1).concat(lastEvent);
    } else {
      return realtimeEvents.concat(realtimeEvent);
    }
  });
  \<close>
  On the empty log \<^verbatim>\<open>lastEvent\<close> is \<^verbatim>\<open>undefined\<close> and so is \<^verbatim>\<open>lastEvent?.event.type\<close>; an
  event without a \<^verbatim>\<open>type\<close> then takes the first branch, where the write to
  \<^verbatim>\<open>lastEvent.count\<close> throws a \<^verbatim>\<open>TypeError\<close>. \<^verbatim>\<open>(lastEvent.count || 0)\<close> is 0 for a count that is
  absent or 0. The write changes the last entry in place and the new array ends with that
  same entry; the model replaces the last entry by the updated one.
\<close>

definition last_type :: "realtime_event list \<Rightarrow> string option" where
  "last_type es =
     (if es = [] then None else ptype (event (last es)))"

definition count_or_zero :: "nat option \<Rightarrow> nat" where
  "count_or_zero c = (case c of None \<Rightarrow> 0 | Some n \<Rightarrow> n)"

definition coalesce :: "realtime_event list \<Rightarrow> realtime_event \<Rightarrow> error + realtime_event list" where
  "coalesce es e =
     (if last_type es = ptype (event e) then
        (if es = [] then Inl TypeError
         else
           let lastEvent = last es;
               lastEvent' = lastEvent\<lparr>count := Some (count_or_zero (count lastEvent) + 1)\<rparr>
           in Inr (butlast es @ [lastEvent']))
      else Inr (es @ [e]))"

definition on_realtime_event :: "realtime_event \<Rightarrow> world \<Rightarrow> outcome \<times> world" where
  "on_realtime_event realtimeEvent w =
     (case coalesce (realtimeEvents w) realtimeEvent of
        Inl err \<Rightarrow> (Rejected err, w)
      | Inr es \<Rightarrow> (Resolved, perform (SetRealtimeEvents es) w))"

text \<open>A sequence of events handed to the handler one at a time, in arrival order; a
  handler that throws stops the delivery.\<close>

fun deliver :: "realtime_event list \<Rightarrow> world \<Rightarrow> outcome \<times> world" where
  "deliver [] w = (Resolved, w)"
| "deliver (e # es) w =
     (case on_realtime_event e w of
        (Rejected err, w') \<Rightarrow> (Rejected err, w')
      | (Resolved, w') \<Rightarrow> deliver es w')"

subsection \<open>Connecting and disconnecting\<close>

text \<open>
  \<^verbatim>\<open>disconnectConversation\<close>: five setters, then \<^verbatim>\<open>client.disconnect()\<close>,
  \<^verbatim>\<open>await wavRecorder.end()\<close> and \<^verbatim>\<open>await wavStreamPlayer.interrupt()\<close>.
\<close>

definition disconnectConversation :: "world \<Rightarrow> world" where
  "disconnectConversation w =
     run [SetIsConnected False, SetRealtimeEvents [], SetItems [], SetMemoryKv Map.empty,
          SetIsChatOpen False, ClientDisconnect, RecorderEnd, PlayerInterrupt] w"

text \<open>
  \<^verbatim>\<open>connectConversation\<close>. There is no \<^verbatim>\<open>try\<close> around \<^verbatim>\<open>await client.connect()\<close>: when that
  promise rejects, the callback's own promise rejects with the same error and the two
  statements after the \<^verbatim>\<open>await\<close> do not run.
\<close>

definition connectConversation :: "env \<Rightarrow> world \<Rightarrow> outcome \<times> world" where
  "connectConversation en w =
     (if isConnected w then (Resolved, disconnectConversation w)
      else
        let w1 = run [SetStartTime (now en), SetIsConnected True, SetRealtimeEvents [],
                      SetItems (clientItems w), SetIsChatOpen True,
                      RecorderBegin, PlayerConnect, ClientConnect (connectOutcome en)] w
        in case connectOutcome en of
             Some err \<Rightarrow> (Rejected err, w1)
           | None \<Rightarrow>
               (Resolved, run [ClientSendUserMessageContent ''Hello!'', ClientUpdateSession None] w1))"

subsection \<open>Turn taking\<close>

text \<open>
  \<^verbatim>\<open>changeTurnEndType(value: string)\<close>. The toggle passes \<^verbatim>\<open>'none'\<close> or \<^verbatim>\<open>'server_vad'\<close>, the
  parameter is any string; the three comparisons are kept as they are written.
\<close>

definition changeTurnEndType :: "string \<Rightarrow> world \<Rightarrow> world" where
  "changeTurnEndType v w =
     (let w1 = (if v = ''none'' \<and> recorderStatus w = Recording then perform RecorderPause w else w);
          w2 = run [ClientUpdateSession (if v = ''none'' then None else Some ServerVad),
                    SetIsVADMode (v = ''server_vad'')] w1
      in if v = ''server_vad'' \<and> clientConnected w2
         then run [SetIsListening True, RecorderRecord] w2
         else run [SetIsListening False, RecorderPause] w2)"

definition toggleListening :: "world \<Rightarrow> world" where
  "toggleListening w =
     (if isListening w then run [SetIsListening False, RecorderPause, ClientCreateResponse] w
      else run [SetIsListening True, RecorderRecord] w)"

definition stopRecording :: "world \<Rightarrow> world" where
  "stopRecording w = run [SetIsRecording False, RecorderPause, ClientCreateResponse] w"

definition stopPlayback :: "world \<Rightarrow> world" where
  "stopPlayback w = perform PlayerInterrupt w"

text \<open>
  \<^verbatim>\<open>handlePushToTalk\<close> has the dependencies \<^verbatim>\<open>[isConnected, isVADMode, isRecording, stopPlayback]\<close>
  and \<^verbatim>\<open>handlePushToTalkEnd\<close> the dependencies \<^verbatim>\<open>[isRecording, stopRecording]\<close>: the cells they
  test are the ones of the render that created them, not the cells as they are when the
  callback runs. \<open>captured\<close> holds those values, \<open>capture w\<close> is what a render of the world
  \<open>w\<close> hands to the callbacks. \<^verbatim>\<open>handlePushToTalk\<close> sets \<open>isRecording\<close> after
  \<^verbatim>\<open>await stopPlayback()\<close>; until the page renders again, the button still holds the
  callbacks of the render before. The ref \<^verbatim>\<open>recordingTimer.current\<close> is read as it is.
\<close>

record captured =
  cIsConnected :: bool
  cIsVADMode :: bool
  cIsRecording :: bool

definition capture :: "world \<Rightarrow> captured" where
  "capture w =
     \<lparr>cIsConnected = isConnected w, cIsVADMode = isVADMode w, cIsRecording = isRecording w\<rparr>"

definition handlePushToTalk :: "captured \<Rightarrow> world \<Rightarrow> world" where
  "handlePushToTalk c w =
     (if \<not> cIsConnected c \<or> cIsVADMode c then w
      else if \<not> cIsRecording c then
        run [SetIsRecording True, SetRecordingDuration 0, RecorderRecord, SetInterval]
          (stopPlayback w)
      else w)"

definition handlePushToTalkEnd :: "captured \<Rightarrow> world \<Rightarrow> world" where
  "handlePushToTalkEnd c w =
     (if cIsRecording c then
        (let w1 = stopRecording w
         in if recordingTimer w1 then perform ClearInterval w1 else w1)
      else w)"

text \<open>The callback of the interval that \<^verbatim>\<open>handlePushToTalk\<close> schedules.\<close>

definition timer_tick :: "world \<Rightarrow> world" where
  "timer_tick w =
     (if intervalActive w then perform (SetRecordingDuration (recordingDuration w + 1)) w else w)"

subsection \<open>Text messages\<close>

text \<open>
  \<^verbatim>\<open>String.prototype.trim\<close> strips white space and line terminators from both ends. A
  \<open>char\<close> is read as a code unit below 256, where these are the seven white space
  characters.
\<close>

definition isWhiteSpace :: "char \<Rightarrow> bool" where
  "isWhiteSpace c = (c \<in> {CHR 0x09, CHR 0x0A, CHR 0x0B, CHR 0x0C, CHR 0x0D, CHR 0x20, CHR 0xA0})"

definition trim :: "string \<Rightarrow> string" where
  "trim s = rev (dropWhile isWhiteSpace (rev (dropWhile isWhiteSpace s)))"

definition sendTextMessage :: "world \<Rightarrow> world" where
  "sendTextMessage w =
     (if \<not> isConnected w \<or> trim (textMessage w) = [] then w
      else run [ClientSendUserMessageContent (textMessage w), SetTextMessage []] (stopPlayback w))"

subsection \<open>Tools\<close>

text \<open>
  \<^verbatim>\<open>
  setMemoryKv((memoryKv) => {
    const newKv = { ...memoryKv };
    newKv[key] = value;
    return newKv;
  });
  \<close>
  \<open>newKv\<close> is a plain object, so the assignment goes through the accessor
  \<^verbatim>\<open>Object.prototype.__proto__\<close> when the key is \<^verbatim>\<open>__proto__\<close>: its setter ignores a value
  that is not an object, and no own property is created. Every other key becomes (or
  stays) an own property holding the value. The tool's schema makes the value a string.
\<close>

definition assign :: "(string \<rightharpoonup> string) \<Rightarrow> string \<Rightarrow> string \<Rightarrow> (string \<rightharpoonup> string)" where
  "assign obj key v = (if key = ''__proto__'' then obj else obj(key \<mapsto> v))"

definition set_memory :: "string \<Rightarrow> string \<Rightarrow> world \<Rightarrow> world" where
  "set_memory key v w = perform (SetMemoryKv (assign (memoryKv w) key v)) w"

definition edit_email_marketing :: "string \<Rightarrow> string \<Rightarrow> world \<Rightarrow> world" where
  "edit_email_marketing sub bd w = perform (SetEmailContent \<lparr>subject = sub, body = bd\<rparr>) w"

subsection \<open>Remote events\<close>

definition on_error :: "string \<Rightarrow> world \<Rightarrow> world" where
  "on_error msg w = perform (ConsoleError msg) w"

text \<open>
  \<^verbatim>\<open>
  const trackSampleOffset = await wavStreamPlayer.interrupt();
  if (trackSampleOffset?.trackId) {
    const { trackId, offset } = trackSampleOffset;
    await client.cancelResponse(trackId, offset);
  }
  \<close>
  The test is truthiness: \<^verbatim>\<open>undefined\<close>, a \<^verbatim>\<open>null\<close> track id and the empty string fail it.
\<close>

definition on_conversation_interrupted :: "env \<Rightarrow> world \<Rightarrow> world" where
  "on_conversation_interrupted en w =
     (let w1 = perform PlayerInterrupt w
      in case interruptResult en of
           None \<Rightarrow> w1
         | Some trackSampleOffset \<Rightarrow>
             (case trackId trackSampleOffset of
                None \<Rightarrow> w1
              | Some tid \<Rightarrow>
                  if tid = [] then w1
                  else perform (ClientCancelResponse tid (offset trackSampleOffset)) w1))"

text \<open>
  \<^verbatim>\<open>
  const items = client.conversation.getItems();
  if (delta?.audio) {
    wavStreamPlayer.add16BitPCM(delta.audio, item.id);
  }
  if (item.status === 'completed' && item.formatted.audio?.length) {
    const wavFile = await WavRecorder.decode(item.formatted.audio, 24000, 24000);
    item.formatted.file = wavFile;
  }
  setItems(items);
  \<close>
  The event's \<open>item\<close> is an object of the client's conversation; the write to
  \<^verbatim>\<open>item.formatted.file\<close> is a write to the heap, seen through every list that holds the
  object. An \<^verbatim>\<open>Int16Array\<close> is truthy whatever its length.
\<close>

definition on_conversation_updated :: "addr \<Rightarrow> delta option \<Rightarrow> world \<Rightarrow> world" where
  "on_conversation_updated item dl w =
     (let its = clientItems w;
          w1 = (case dl of
                  None \<Rightarrow> w
                | Some d \<Rightarrow>
                    (case daudio d of
                       None \<Rightarrow> w
                     | Some a \<Rightarrow> perform (PlayerAdd16BitPCM a (item_id (itemHeap w item))) w));
          w2 = (if status (itemHeap w1 item) = ''completed'' then
                  (case audio (formatted (itemHeap w1 item)) of
                     None \<Rightarrow> w1
                   | Some a \<Rightarrow>
                       if length a \<noteq> 0
                       then run [WavDecode a 24000 24000, SetItemFile item (WavFile a 24000 24000)] w1
                       else w1)
                else w1)
      in perform (SetItems its) w2)"

subsection \<open>Edits made in the page\<close>

definition edit_subject :: "string \<Rightarrow> world \<Rightarrow> world" where
  "edit_subject v w = perform (SetEmailContent ((emailContent w)\<lparr>subject := v\<rparr>)) w"

definition edit_body :: "string \<Rightarrow> world \<Rightarrow> world" where
  "edit_body v w = perform (SetEmailContent ((emailContent w)\<lparr>body := v\<rparr>)) w"

definition close_chat :: "world \<Rightarrow> world" where
  "close_chat w = perform (SetIsChatOpen False) w"

definition type_text :: "string \<Rightarrow> world \<Rightarrow> world" where
  "type_text v w = perform (SetTextMessage v) w"

subsection \<open>Every operation of the page\<close>

text \<open>
  The callbacks of the page, the handlers the client calls, and the interval's callback.
  The effect that runs once when the page mounts (it sets the session's instructions and
  transcription model, registers the two tools and the four handlers and loads the items)
  and its cleanup are not operations of a mounted page and are left out. \<open>step\<close> runs an
  operation on a page that has rendered its current state: the push-to-talk callbacks get
  \<open>capture w\<close>.
\<close>

datatype operation =
    Connect
  | Disconnect
  | ChangeTurnEndType string
  | ToggleListening
  | PushToTalk
  | PushToTalkEnd
  | TimerTick
  | SendTextMessage
  | OnRealtimeEvent realtime_event
  | OnError string
  | OnConversationInterrupted
  | OnConversationUpdated addr "delta option"
  | ToolSetMemory string string
  | ToolEditEmailMarketing string string
  | EditSubject string
  | EditBody string
  | CloseChat
  | TypeText string

fun step :: "env \<Rightarrow> operation \<Rightarrow> world \<Rightarrow> outcome \<times> world" where
  "step en Connect w = connectConversation en w"
| "step en Disconnect w = (Resolved, disconnectConversation w)"
| "step en (ChangeTurnEndType v) w = (Resolved, changeTurnEndType v w)"
| "step en ToggleListening w = (Resolved, toggleListening w)"
| "step en PushToTalk w = (Resolved, handlePushToTalk (capture w) w)"
| "step en PushToTalkEnd w = (Resolved, handlePushToTalkEnd (capture w) w)"
| "step en TimerTick w = (Resolved, timer_tick w)"
| "step en SendTextMessage w = (Resolved, sendTextMessage w)"
| "step en (OnRealtimeEvent e) w = on_realtime_event e w"
| "step en (OnError msg) w = (Resolved, on_error msg w)"
| "step en OnConversationInterrupted w = (Resolved, on_conversation_interrupted en w)"
| "step en (OnConversationUpdated item dl) w = (Resolved, on_conversation_updated item dl w)"
| "step en (ToolSetMemory key v) w = (Resolved, set_memory key v w)"
| "step en (ToolEditEmailMarketing sub bd) w = (Resolved, edit_email_marketing sub bd w)"
| "step en (EditSubject v) w = (Resolved, edit_subject v w)"
| "step en (EditBody v) w = (Resolved, edit_body v w)"
| "step en CloseChat w = (Resolved, close_chat w)"
| "step en (TypeText v) w = (Resolved, type_text v w)"

subsection \<open>Sample values\<close>

definition blank_item :: conversation_item where
  "blank_item =
     \<lparr>item_id = [], role = None, status = [],
      formatted = \<lparr>transcript = None, ftext = None, audio = None, ffile = None\<rparr>\<rparr>"

text \<open>The page as mounted: every cell at its initial value, nothing connected.\<close>

definition initial :: world where
  "initial =
     \<lparr>items = [], realtimeEvents = [], isConnected = False, canPushToTalk = False,
      isRecording = False, memoryKv = Map.empty,
      emailContent = \<lparr>subject = [], body = []\<rparr>, isChatOpen = False, isVADMode = False,
      textMessage = [], recordingDuration = 0, vadEnabled = False, isListening = False,
      startTime = ''2024-10-01T09:00:00.000Z'', recordingTimer = False, intervalActive = False,
      recorderStatus = Ended, clientConnected = False, clientItems = [],
      itemHeap = (\<lambda>_. blank_item), trace = []\<rparr>"

definition env_ok :: env where
  "env_ok = \<lparr>now = ''2024-10-01T09:05:00.000Z'', connectOutcome = None,
             interruptResult = Some \<lparr>trackId = Some ''t1'', offset = 500\<rparr>\<rparr>"

definition env_refused :: env where
  "env_refused = \<lparr>now = ''2024-10-01T09:05:00.000Z'',
                  connectOutcome = Some (AdapterError ''connection refused''),
                  interruptResult = None\<rparr>"

definition ev_delta :: realtime_event where
  "ev_delta = \<lparr>time = ''2024-10-01T09:05:01.000Z'', source = Server, count = None,
               event = \<lparr>ptype = Some ''response.audio.delta'', pbody = ''a''\<rparr>\<rparr>"

definition ev_delta2 :: realtime_event where
  "ev_delta2 = \<lparr>time = ''2024-10-01T09:05:02.000Z'', source = Server, count = None,
                event = \<lparr>ptype = Some ''response.audio.delta'', pbody = ''b''\<rparr>\<rparr>"

definition ev_done :: realtime_event where
  "ev_done = \<lparr>time = ''2024-10-01T09:05:03.000Z'', source = Server, count = None,
              event = \<lparr>ptype = Some ''response.done'', pbody = []\<rparr>\<rparr>"

definition reply_item :: conversation_item where
  "reply_item =
     \<lparr>item_id = ''x'', role = Some ''assistant'', status = ''completed'',
      formatted = \<lparr>transcript = Some ''Hello'', ftext = None, audio = Some [1, 2, 3],
                   ffile = None\<rparr>\<rparr>"

definition audio_delta :: delta where
  "audio_delta = \<lparr>dtranscript = None, dtext = None, daudio = Some [7, 8]\<rparr>"

text \<open>A session in progress: connected, in manual mode, one finished assistant item in
  the client's conversation that the page has not rendered yet.\<close>

definition talking :: world where
  "talking =
     initial\<lparr>isConnected := True, isChatOpen := True,
             memoryKv := [''name'' \<mapsto> ''Ada''],
             emailContent := \<lparr>subject = ''Autumn menu'', body = ''Come by on Friday''\<rparr>,
             textMessage := ''Hi there'', realtimeEvents := [ev_done],
             recorderStatus := Paused, clientConnected := True, clientItems := [0],
             itemHeap := (\<lambda>_. blank_item)(0 := reply_item)\<rparr>"

text \<open>The same session in voice activity mode, the recorder running.\<close>

definition listening :: world where
  "listening = talking\<lparr>isVADMode := True, isListening := True, recorderStatus := Recording\<rparr>"

definition env_idle :: env where
  "env_idle = \<lparr>now = ''2024-10-01T09:05:00.000Z'', connectOutcome = None,
               interruptResult = Some \<lparr>trackId = None, offset = 0\<rparr>\<rparr>"

section \<open>Properties\<close>

subsection \<open>The trace\<close>

lemma trace_perform: "trace (perform e w) = trace w @ [e]"
  by (simp add: perform_def)

lemma trace_run: "trace (run es w) = trace w @ es"
  unfolding run_def by (induction es arbitrary: w) (simp_all add: trace_perform)

lemma new_effects_append: "trace w' = trace w @ es \<Longrightarrow> new_effects w w' = es"
  by (simp add: new_effects_def)

lemma realtimeEvents_perform:
  "realtimeEvents (perform e w) = (case e of SetRealtimeEvents es \<Rightarrow> es | _ \<Rightarrow> realtimeEvents w)"
  by (cases e) (simp_all add: perform_def)

lemma memoryKv_perform:
  "memoryKv (perform e w) = (case e of SetMemoryKv m \<Rightarrow> m | _ \<Rightarrow> memoryKv w)"
  by (cases e) (simp_all add: perform_def)

subsection \<open>Event log\<close>

lemma coalesce_same:
  "es \<noteq> [] \<Longrightarrow> ptype (event (last es)) = ptype (event e) \<Longrightarrow>
   coalesce es e = Inr (butlast es @ [(last es)\<lparr>count := Some (count_or_zero (count (last es)) + 1)\<rparr>])"
  by (simp add: coalesce_def last_type_def Let_def)

lemma coalesce_other:
  "last_type es \<noteq> ptype (event e) \<Longrightarrow> coalesce es e = Inr (es @ [e])"
  by (simp add: coalesce_def)

text \<open>Events of the type of the last entry only raise that entry's count, by one each.\<close>

lemma deliver_same:
  "realtimeEvents w \<noteq> [] \<Longrightarrow>
   \<forall>e \<in> set evs. ptype (event e) = ptype (event (last (realtimeEvents w))) \<Longrightarrow>
   fst (deliver evs w) = Resolved \<and>
   realtimeEvents (snd (deliver evs w)) =
     butlast (realtimeEvents w) @
       [(last (realtimeEvents w))\<lparr>count :=
          (if evs = [] then count (last (realtimeEvents w))
           else Some (count_or_zero (count (last (realtimeEvents w))) + length evs))\<rparr>]"
proof (induction evs arbitrary: w)
  case Nil
  then show ?case by simp
next
  case (Cons e evs)
  let ?l = "last (realtimeEvents w)"
  let ?l' = "?l\<lparr>count := Some (count_or_zero (count ?l) + 1)\<rparr>"
  let ?w' = "perform (SetRealtimeEvents (butlast (realtimeEvents w) @ [?l'])) w"
  from Cons.prems have same: "ptype (event ?l) = ptype (event e)" by simp
  with Cons.prems have co: "coalesce (realtimeEvents w) e = Inr (butlast (realtimeEvents w) @ [?l'])"
    by (simp add: coalesce_same)
  then have step: "on_realtime_event e w = (Resolved, ?w')"
    by (simp add: on_realtime_event_def)
  have log': "realtimeEvents ?w' = butlast (realtimeEvents w) @ [?l']"
    by (simp add: realtimeEvents_perform)
  have ne: "realtimeEvents ?w' \<noteq> []" unfolding log' by simp
  have types: "\<forall>x \<in> set evs. ptype (event x) = ptype (event (last (realtimeEvents ?w')))"
    using Cons.prems unfolding log' by simp
  have d: "deliver (e # evs) w = deliver evs ?w'" by (simp add: step)
  from Cons.IH [OF ne types] show ?case
    unfolding d log' by (simp add: count_or_zero_def)
qed

text \<open>
  C1, as the code has it. A run of \<open>N \<ge> 1\<close> events of one type \<open>ty\<close>, delivered on a log
  whose last entry (if any) has another type, is delivered without an error and adds
  exactly one entry to the log: the first event of the run. Its count is the one that event
  came with when \<open>N = 1\<close> (none, for an event as the client emits it), and otherwise the
  count it came with (none counting as 0) plus \<open>N - 1\<close>: the count is the number of
  repeats folded into the entry, not the length of the run. In particular a single event
  whose type differs from the last entry's is appended unchanged as a new entry.
\<close>

theorem realtime_event_run_coalesced:
  assumes "evs \<noteq> []"
    and "\<forall>e \<in> set evs. ptype (event e) = ty"
    and "last_type (realtimeEvents w) \<noteq> ty"
  shows "fst (deliver evs w) = Resolved \<and>
         realtimeEvents (snd (deliver evs w)) =
           realtimeEvents w @
             [(hd evs)\<lparr>count :=
                (if length evs = 1 then count (hd evs)
                 else Some (count_or_zero (count (hd evs)) + (length evs - 1)))\<rparr>] \<and>
         realtimeEvents (snd (on_realtime_event (hd evs) w)) = realtimeEvents w @ [hd evs]"
proof -
  from assms(1) obtain e rest where evs: "evs = e # rest" by (cases evs) auto
  let ?w' = "perform (SetRealtimeEvents (realtimeEvents w @ [e])) w"
  from assms(2) evs have ty: "ptype (event e) = ty" by simp
  with assms(3) have "coalesce (realtimeEvents w) e = Inr (realtimeEvents w @ [e])"
    by (simp add: coalesce_other)
  then have step: "on_realtime_event e w = (Resolved, ?w')"
    by (simp add: on_realtime_event_def)
  have log': "realtimeEvents ?w' = realtimeEvents w @ [e]"
    by (simp add: realtimeEvents_perform)
  have ne: "realtimeEvents ?w' \<noteq> []" unfolding log' by simp
  have types: "\<forall>x \<in> set rest. ptype (event x) = ptype (event (last (realtimeEvents ?w')))"
    using assms(2) evs ty unfolding log' by simp
  have d: "deliver evs w = deliver rest ?w'" by (simp add: evs step)
  from deliver_same [OF ne types] show ?thesis
    unfolding d log' by (simp add: evs step log')
qed

theorem realtime_event_run_coalesced_witness:
  "fst (deliver [ev_delta, ev_delta2, ev_delta] talking) = Resolved \<and>
   realtimeEvents (snd (deliver [ev_delta, ev_delta2, ev_delta] talking)) =
     [ev_done, ev_delta\<lparr>count := Some 2\<rparr>] \<and>
   realtimeEvents (snd (deliver [ev_done, ev_delta] initial)) = [ev_done, ev_delta]"
proof -
  have a: "[ev_delta, ev_delta2, ev_delta] \<noteq> []" by simp
  have b: "\<forall>e \<in> set [ev_delta, ev_delta2, ev_delta].
             ptype (event e) = Some ''response.audio.delta''"
    by (simp add: ev_delta_def ev_delta2_def)
  have c: "last_type (realtimeEvents talking) \<noteq> Some ''response.audio.delta''"
    by (simp add: last_type_def talking_def ev_done_def)
  have d: "realtimeEvents (snd (deliver [ev_done, ev_delta] initial)) = [ev_done, ev_delta]"
    by (simp add: on_realtime_event_def coalesce_def last_type_def initial_def ev_done_def
        ev_delta_def realtimeEvents_perform)
  from realtime_event_run_coalesced [OF a b c] d show ?thesis
    by (simp add: talking_def count_or_zero_def ev_delta_def)
qed

theorem realtime_event_count_counterexample:
  "realtimeEvents (snd (deliver [ev_delta, ev_delta2] initial)) = [ev_delta\<lparr>count := Some 1\<rparr>] \<and>
   realtimeEvents (snd (deliver [ev_delta, ev_delta2] initial)) \<noteq> [ev_delta\<lparr>count := Some 2\<rparr>] \<and>
   map count (realtimeEvents (snd (deliver [ev_delta] initial))) = [None]"
  by (simp add: on_realtime_event_def coalesce_def last_type_def count_or_zero_def initial_def
      ev_delta_def ev_delta2_def realtimeEvents_perform)

subsection \<open>Memory\<close>

text \<open>
  C2, as the code has it. Every operation of the page other than the \<^verbatim>\<open>set_memory\<close> tool and
  \<^verbatim>\<open>disconnectConversation\<close> (which \<^verbatim>\<open>connectConversation\<close> runs when the page is connected)
  leaves \<open>memoryKv\<close> as it was: connecting from the disconnected state, the turn mode
  change, push-to-talk begin and end, the timer, sending text, each of the four remote event
  handlers, the \<^verbatim>\<open>edit_email_marketing\<close> tool and the edits made in the page.
  \<^verbatim>\<open>disconnectConversation\<close> resets \<open>memoryKv\<close> to the empty object. \<^verbatim>\<open>set_memory(key, value)\<close>
  with a key other than \<^verbatim>\<open>__proto__\<close> sets exactly that key to the value: the new mapping is
  the old one updated at the key.
\<close>

theorem memoryKv_frame:
  "(oper \<noteq> Disconnect \<and> (oper = Connect \<longrightarrow> \<not> isConnected w) \<and>
    (\<forall>k x. oper \<noteq> ToolSetMemory k x) \<longrightarrow>
      memoryKv (snd (step en oper w)) = memoryKv w) \<and>
   memoryKv (snd (step en Disconnect w)) = Map.empty \<and>
   (isConnected w \<longrightarrow> memoryKv (snd (step en Connect w)) = Map.empty) \<and>
   (key \<noteq> ''__proto__'' \<longrightarrow>
      memoryKv (snd (step en (ToolSetMemory key v) w)) = (memoryKv w)(key \<mapsto> v))"
proof -
  have frame: "memoryKv (snd (step en oper w)) = memoryKv w"
    if "oper \<noteq> Disconnect" "oper = Connect \<longrightarrow> \<not> isConnected w"
      "\<forall>k x. oper \<noteq> ToolSetMemory k x"
    using that
    by (cases oper)
       (simp_all add: connectConversation_def changeTurnEndType_def toggleListening_def
          handlePushToTalk_def handlePushToTalkEnd_def stopPlayback_def stopRecording_def
          timer_tick_def sendTextMessage_def on_realtime_event_def on_error_def
          on_conversation_interrupted_def on_conversation_updated_def edit_email_marketing_def
          edit_subject_def edit_body_def close_chat_def type_text_def
          Let_def run_def memoryKv_perform split: option.split sum.split)
  have disc: "memoryKv (disconnectConversation w) = Map.empty"
    by (simp add: disconnectConversation_def run_def memoryKv_perform)
  have setm: "key \<noteq> ''__proto__'' \<Longrightarrow> memoryKv (set_memory key v w) = (memoryKv w)(key \<mapsto> v)"
    by (simp add: set_memory_def assign_def memoryKv_perform)
  show ?thesis
    using frame disc setm by (simp add: connectConversation_def)
qed

theorem memoryKv_frame_witness:
  "memoryKv (snd (step env_ok PushToTalk talking)) = memoryKv talking \<and>
   memoryKv (snd (step env_ok Disconnect talking)) = Map.empty \<and>
   memoryKv (snd (step env_ok Connect talking)) = Map.empty \<and>
   memoryKv (snd (step env_ok (ToolSetMemory ''city'' ''Oslo'') talking)) =
     (memoryKv talking)(''city'' \<mapsto> ''Oslo'')"
proof -
  have a: "PushToTalk \<noteq> Disconnect \<and> (PushToTalk = Connect \<longrightarrow> \<not> isConnected talking) \<and>
           (\<forall>k x. PushToTalk \<noteq> ToolSetMemory k x)"
    by simp
  have b: "isConnected talking" by (simp add: talking_def)
  have c: "''city'' \<noteq> ''__proto__''" by simp
  from memoryKv_frame [of PushToTalk talking env_ok "''city''" "''Oslo''"] a b c
  show ?thesis by blast
qed

theorem memoryKv_disconnect_counterexample:
  "memoryKv talking ''name'' = Some ''Ada'' \<and>
   memoryKv (snd (step env_ok Disconnect talking)) ''name'' = None"
  by (simp add: talking_def disconnectConversation_def run_def memoryKv_perform)

subsection \<open>Connecting\<close>

text \<open>
  C3, as the code has it. When \<^verbatim>\<open>connectConversation\<close> runs on a disconnected page and the
  promise of \<^verbatim>\<open>client.connect()\<close> rejects with an error, the callback rejects with that
  error, and nothing is reverted: \<open>isConnected\<close> stays true, the recorder stays begun, the
  client is no more connected than before, and the effects are exactly those up to the call
  of \<^verbatim>\<open>client.connect()\<close>, so neither the greeting nor the session update is sent.
\<close>

theorem connect_rejected_stays_connected:
  "\<not> isConnected w \<and> connectOutcome en = Some err \<longrightarrow>
     fst (connectConversation en w) = Rejected err \<and>
     isConnected (snd (connectConversation en w)) \<and>
     recorderStatus (snd (connectConversation en w)) = Paused \<and>
     clientConnected (snd (connectConversation en w)) = clientConnected w \<and>
     new_effects w (snd (connectConversation en w)) =
        [SetStartTime (now en), SetIsConnected True, SetRealtimeEvents [],
         SetItems (clientItems w), SetIsChatOpen True, RecorderBegin, PlayerConnect,
         ClientConnect (Some err)]"
  by (simp add: connectConversation_def Let_def new_effects_append trace_run)
     (simp add: run_def perform_def)

theorem connect_rejected_stays_connected_witness:
  "fst (connectConversation env_refused initial) = Rejected (AdapterError ''connection refused'') \<and>
   recorderStatus (snd (connectConversation env_refused initial)) = Paused \<and>
   new_effects initial (snd (connectConversation env_refused initial)) =
     [SetStartTime ''2024-10-01T09:05:00.000Z'', SetIsConnected True, SetRealtimeEvents [],
      SetItems [], SetIsChatOpen True, RecorderBegin, PlayerConnect,
      ClientConnect (Some (AdapterError ''connection refused''))]"
proof -
  have a: "\<not> isConnected initial \<and>
           connectOutcome env_refused = Some (AdapterError ''connection refused'')"
    by (simp add: initial_def env_refused_def)
  have b: "now env_refused = ''2024-10-01T09:05:00.000Z''" "clientItems initial = []"
    by (simp_all add: initial_def env_refused_def)
  from connect_rejected_stays_connected
         [of initial env_refused "AdapterError ''connection refused''"] a
  show ?thesis unfolding b by blast
qed

theorem connect_rejected_counterexample:
  "\<not> isConnected initial \<and>
   connectOutcome env_refused = Some (AdapterError ''connection refused'') \<and>
   isConnected (snd (connectConversation env_refused initial))"
  by (simp add: connectConversation_def initial_def env_refused_def run_def perform_def)

text \<open>
  C7. \<^verbatim>\<open>connectConversation\<close> on a connected page is \<^verbatim>\<open>disconnectConversation\<close>. On a
  disconnected page, with \<^verbatim>\<open>client.connect()\<close> resolving, it performs exactly these effects
  in this order: it stores the clock's time as the session start, sets \<open>isConnected\<close>, empties
  the event log, loads the client's items, opens the chat, begins the recorder, connects
  the player, connects the client, sends the user message \<^verbatim>\<open>Hello!\<close> and sets turn detection
  to null.
\<close>

theorem connect_conversation_sequence:
  "(isConnected w \<longrightarrow> connectConversation en w = (Resolved, disconnectConversation w)) \<and>
   (\<not> isConnected w \<and> connectOutcome en = None \<longrightarrow>
      fst (connectConversation en w) = Resolved \<and>
      new_effects w (snd (connectConversation en w)) =
        [SetStartTime (now en), SetIsConnected True, SetRealtimeEvents [],
         SetItems (clientItems w), SetIsChatOpen True, RecorderBegin, PlayerConnect,
         ClientConnect None, ClientSendUserMessageContent ''Hello!'', ClientUpdateSession None] \<and>
      startTime (snd (connectConversation en w)) = now en \<and>
      isConnected (snd (connectConversation en w)) \<and>
      realtimeEvents (snd (connectConversation en w)) = [] \<and>
      items (snd (connectConversation en w)) = clientItems w)"
  by (simp add: connectConversation_def Let_def new_effects_append trace_run)
     (simp add: run_def perform_def)

theorem connect_conversation_sequence_witness:
  "connectConversation env_ok talking = (Resolved, disconnectConversation talking) \<and>
   fst (connectConversation env_ok initial) = Resolved \<and>
   new_effects initial (snd (connectConversation env_ok initial)) =
     [SetStartTime ''2024-10-01T09:05:00.000Z'', SetIsConnected True, SetRealtimeEvents [],
      SetItems [], SetIsChatOpen True, RecorderBegin, PlayerConnect,
      ClientConnect None, ClientSendUserMessageContent ''Hello!'', ClientUpdateSession None]"
proof -
  have a: "isConnected talking" by (simp add: talking_def)
  have b: "\<not> isConnected initial \<and> connectOutcome env_ok = None"
    by (simp add: initial_def env_ok_def)
  have c: "now env_ok = ''2024-10-01T09:05:00.000Z''" "clientItems initial = []"
    by (simp_all add: initial_def env_ok_def)
  from connect_conversation_sequence [of talking env_ok]
       connect_conversation_sequence [of initial env_ok] a b
  show ?thesis unfolding c by blast
qed

text \<open>
  C10. \<^verbatim>\<open>disconnectConversation\<close> leaves \<open>emailContent\<close> as it was, while it empties the
  items, the event log and \<open>memoryKv\<close> and clears \<open>isChatOpen\<close> and \<open>isConnected\<close>; and the
  draft is still the same after the next \<^verbatim>\<open>connectConversation\<close>, however the client's
  connect settles.
\<close>

theorem disconnect_keeps_email_content:
  "emailContent (disconnectConversation w) = emailContent w \<and>
   items (disconnectConversation w) = [] \<and>
   realtimeEvents (disconnectConversation w) = [] \<and>
   memoryKv (disconnectConversation w) = Map.empty \<and>
   \<not> isChatOpen (disconnectConversation w) \<and>
   \<not> isConnected (disconnectConversation w) \<and>
   emailContent (snd (connectConversation en (disconnectConversation w))) = emailContent w"
  by (simp add: disconnectConversation_def connectConversation_def run_def perform_def Let_def
      split: option.split)

subsection \<open>Interruption\<close>

text \<open>
  C4. The handler of \<^verbatim>\<open>conversation.interrupted\<close> always calls the player's \<^verbatim>\<open>interrupt()\<close>
  first. When the result is present and carries a track id (a non-empty string), the
  handler then calls \<^verbatim>\<open>cancelResponse\<close> exactly once, with that track id and the result's
  offset, and performs nothing else. When the result is \<^verbatim>\<open>undefined\<close>, or its track id is
  \<^verbatim>\<open>null\<close> or empty, \<^verbatim>\<open>interrupt()\<close> is the only effect: \<^verbatim>\<open>cancelResponse\<close> is not called.
\<close>

theorem conversation_interrupted_cancel:
  "(interruptResult en = Some r \<and> trackId r = Some tid \<and> tid \<noteq> [] \<longrightarrow>
      new_effects w (on_conversation_interrupted en w) =
        [PlayerInterrupt, ClientCancelResponse tid (offset r)]) \<and>
   (interruptResult en = None \<or>
    interruptResult en = Some r \<and> (trackId r = None \<or> trackId r = Some []) \<longrightarrow>
      new_effects w (on_conversation_interrupted en w) = [PlayerInterrupt])"
  by (auto simp add: on_conversation_interrupted_def Let_def new_effects_def perform_def)

theorem conversation_interrupted_cancel_witness:
  "new_effects talking (on_conversation_interrupted env_ok talking) =
     [PlayerInterrupt, ClientCancelResponse ''t1'' 500] \<and>
   new_effects talking (on_conversation_interrupted env_refused talking) = [PlayerInterrupt] \<and>
   new_effects talking (on_conversation_interrupted env_idle talking) = [PlayerInterrupt]"
proof -
  let ?r = "\<lparr>trackId = Some ''t1'', offset = 500\<rparr>"
  let ?n = "\<lparr>trackId = None, offset = 0\<rparr>"
  have a: "interruptResult env_ok = Some ?r \<and> trackId ?r = Some ''t1'' \<and> ''t1'' \<noteq> []"
    by (simp add: env_ok_def)
  have b: "interruptResult env_refused = None" by (simp add: env_refused_def)
  have c: "interruptResult env_idle = Some ?n \<and> trackId ?n = None" by (simp add: env_idle_def)
  have d: "offset ?r = 500" by simp
  from conversation_interrupted_cancel [of env_ok ?r "''t1''" talking]
       conversation_interrupted_cancel [of env_refused ?n "''t1''" talking]
       conversation_interrupted_cancel [of env_idle ?n "''t1''" talking] a b c d
  show ?thesis by metis
qed

subsection \<open>Push to talk\<close>




subsection \<open>Turn mode\<close>

text \<open>
  C6. \<^verbatim>\<open>changeTurnEndType('none')\<close> while the recorder's status is \<^verbatim>\<open>recording\<close> performs the
  recorder's \<^verbatim>\<open>pause()\<close> first and \<^verbatim>\<open>updateSession({turn_detection: null})\<close> after it.
  \<^verbatim>\<open>changeTurnEndType('server_vad')\<close> while the client is connected sends the session update,
  sets \<open>isListening\<close> and starts the recorder at once, which ends recording. Whatever the
  state before, the last effect of \<^verbatim>\<open>changeTurnEndType('none')\<close> is the recorder's \<^verbatim>\<open>pause()\<close>,
  so it ends with the recorder paused, and with \<open>isListening\<close> false.
\<close>

theorem change_turn_end_type:
  "(recorderStatus w = Recording \<longrightarrow>
      new_effects w (changeTurnEndType ''none'' w) =
        [RecorderPause, ClientUpdateSession None, SetIsVADMode False, SetIsListening False,
         RecorderPause]) \<and>
   (clientConnected w \<longrightarrow>
      new_effects w (changeTurnEndType ''server_vad'' w) =
        [ClientUpdateSession (Some ServerVad), SetIsVADMode True, SetIsListening True,
         RecorderRecord] \<and>
      recorderStatus (changeTurnEndType ''server_vad'' w) = Recording \<and>
      isListening (changeTurnEndType ''server_vad'' w)) \<and>
   last (new_effects w (changeTurnEndType ''none'' w)) = RecorderPause \<and>
   recorderStatus (changeTurnEndType ''none'' w) = Paused \<and>
   \<not> isListening (changeTurnEndType ''none'' w)"
  by (simp add: changeTurnEndType_def Let_def new_effects_def run_def perform_def)

theorem change_turn_end_type_witness:
  "new_effects listening (changeTurnEndType ''none'' listening) =
     [RecorderPause, ClientUpdateSession None, SetIsVADMode False, SetIsListening False,
      RecorderPause] \<and>
   new_effects talking (changeTurnEndType ''server_vad'' talking) =
     [ClientUpdateSession (Some ServerVad), SetIsVADMode True, SetIsListening True,
      RecorderRecord] \<and>
   recorderStatus (changeTurnEndType ''server_vad'' talking) = Recording \<and>
   recorderStatus (changeTurnEndType ''none'' listening) = Paused"
proof -
  have a: "recorderStatus listening = Recording" by (simp add: listening_def)
  have b: "clientConnected talking" by (simp add: talking_def)
  from change_turn_end_type [of listening] change_turn_end_type [of talking] a b
  show ?thesis by blast
qed

subsection \<open>Conversation items\<close>

text \<open>
  C8. After the handler of \<^verbatim>\<open>conversation.updated\<close> the \<open>items\<close> cell holds the client's whole
  item list, whatever it held before. If the event has a delta with audio, that chunk is
  handed to the player under the id of the event's item. If the event's item has status
  \<^verbatim>\<open>completed\<close> and formatted audio of non-zero length, \<^verbatim>\<open>WavRecorder.decode\<close> is called on
  that audio with the rates 24000 and 24000 and its result is stored in the item's
  \<^verbatim>\<open>formatted.file\<close>. When both hold, the handler performs exactly four effects: the chunk,
  the decoding, the write of the file, and the setter of \<open>items\<close>. No other item object is
  written.
\<close>

theorem conversation_updated_refreshes_items:
  "items (on_conversation_updated item dl w) = clientItems w \<and>
   (dl = Some d \<and> daudio d = Some a \<longrightarrow>
      PlayerAdd16BitPCM a (item_id (itemHeap w item))
        \<in> set (new_effects w (on_conversation_updated item dl w))) \<and>
   (status (itemHeap w item) = ''completed'' \<and>
    audio (formatted (itemHeap w item)) = Some raw \<and> raw \<noteq> [] \<longrightarrow>
      WavDecode raw 24000 24000 \<in> set (new_effects w (on_conversation_updated item dl w)) \<and>
      ffile (formatted (itemHeap (on_conversation_updated item dl w) item)) =
        Some (WavFile raw 24000 24000)) \<and>
   (dl = Some d \<and> daudio d = Some a \<and> status (itemHeap w item) = ''completed'' \<and>
    audio (formatted (itemHeap w item)) = Some raw \<and> raw \<noteq> [] \<longrightarrow>
      new_effects w (on_conversation_updated item dl w) =
        [PlayerAdd16BitPCM a (item_id (itemHeap w item)), WavDecode raw 24000 24000,
         SetItemFile item (WavFile raw 24000 24000), SetItems (clientItems w)]) \<and>
   (b \<noteq> item \<longrightarrow> itemHeap (on_conversation_updated item dl w) b = itemHeap w b)"
  by (auto simp add: on_conversation_updated_def Let_def new_effects_def run_def perform_def
      split: option.split)

theorem conversation_updated_refreshes_items_witness:
  "items (on_conversation_updated 0 (Some audio_delta) talking) = [0] \<and>
   PlayerAdd16BitPCM [7, 8] ''x''
     \<in> set (new_effects talking (on_conversation_updated 0 (Some audio_delta) talking)) \<and>
   WavDecode [1, 2, 3] 24000 24000
     \<in> set (new_effects talking (on_conversation_updated 0 (Some audio_delta) talking)) \<and>
   ffile (formatted (itemHeap (on_conversation_updated 0 (Some audio_delta) talking) 0)) =
     Some (WavFile [1, 2, 3] 24000 24000) \<and>
   new_effects talking (on_conversation_updated 0 (Some audio_delta) talking) =
     [PlayerAdd16BitPCM [7, 8] ''x'', WavDecode [1, 2, 3] 24000 24000,
      SetItemFile 0 (WavFile [1, 2, 3] 24000 24000), SetItems [0]] \<and>
   itemHeap (on_conversation_updated 0 (Some audio_delta) talking) 1 = blank_item"
proof -
  have a: "Some audio_delta = Some audio_delta \<and> daudio audio_delta = Some [7, 8]"
    by (simp add: audio_delta_def)
  have b: "status (itemHeap talking 0) = ''completed'' \<and>
           audio (formatted (itemHeap talking 0)) = Some [1, 2, 3] \<and> [1, 2, 3 :: 16 word] \<noteq> []"
    by (simp add: talking_def reply_item_def)
  have c: "(1 :: nat) \<noteq> 0" by simp
  have d: "clientItems talking = [0]" "item_id (itemHeap talking 0) = ''x''"
    "itemHeap talking 1 = blank_item"
    by (simp_all add: talking_def reply_item_def)
  from conversation_updated_refreshes_items
         [of 0 "Some audio_delta" talking audio_delta "[7, 8]" "[1, 2, 3]" 1] a b c
  show ?thesis unfolding d by metis
qed

subsection \<open>Text messages\<close>

text \<open>
  C9. \<^verbatim>\<open>sendTextMessage\<close> changes nothing (no effect is performed, the world is the one
  before) when the page is not connected or the text is empty once trimmed. Otherwise it
  interrupts the player first, then sends the text, as typed, as a user message, then
  empties the input: these three effects, in this order, and nothing else.
\<close>

theorem send_text_message:
  "(\<not> isConnected w \<or> trim (textMessage w) = [] \<longrightarrow> sendTextMessage w = w) \<and>
   (isConnected w \<and> trim (textMessage w) \<noteq> [] \<longrightarrow>
      new_effects w (sendTextMessage w) =
        [PlayerInterrupt, ClientSendUserMessageContent (textMessage w), SetTextMessage []] \<and>
      textMessage (sendTextMessage w) = [])"
  by (auto simp add: sendTextMessage_def stopPlayback_def new_effects_append trace_run trace_perform
       run_def perform_def)

theorem send_text_message_witness:
  "sendTextMessage initial = initial \<and>
   sendTextMessage (talking\<lparr>textMessage := ''  ''\<rparr>) = talking\<lparr>textMessage := ''  ''\<rparr> \<and>
   new_effects talking (sendTextMessage talking) =
     [PlayerInterrupt, ClientSendUserMessageContent ''Hi there'', SetTextMessage []] \<and>
   textMessage (sendTextMessage talking) = []"
proof -
  have a: "\<not> isConnected initial" by (simp add: initial_def)
  have b: "trim (textMessage (talking\<lparr>textMessage := ''  ''\<rparr>)) = []"
    by (simp add: trim_def isWhiteSpace_def)
  have c: "isConnected talking \<and> trim (textMessage talking) \<noteq> []"
    by (simp add: talking_def trim_def isWhiteSpace_def)
  have d: "textMessage talking = ''Hi there''" by (simp add: talking_def)
  from send_text_message [of initial] send_text_message [of "talking\<lparr>textMessage := ''  ''\<rparr>"]
       send_text_message [of talking] a b c
  show ?thesis unfolding d by metis
qed

end
